theory Spec2Isabelle
  imports Complex_Main "HOL-Library.Multiset"
begin

section \<open>The hybrid property search engine (backend/MatchEngine.py, backend/main.py)\<close>

text \<open>
  The engine keeps a pandas frame \<open>self.data\<close> and a tensor \<open>self.corpus_embeddings\<close>.
  \<open>load_source\<close> fills both from a CSV file, \<open>run_search\<close> scores every row against a
  query and returns the scored frame sorted by the final score, and the HTTP handler
  \<open>perform_search\<close> of main.py filters that frame by a threshold and keeps ten rows.

  A float64 that is not NaN is a value of \<open>f64\<close>: a real number or one of the two
  infinities; NaN is \<open>None\<close> in an \<open>f64 option\<close>. What the engine itself computes on
  floats is exact (a sum of zeros and ones, halved); the two rounding operations of the
  final score are taken from the library record below.
\<close>

subsection \<open>The libraries the engine calls\<close>

type_synonym vec = "real list"

datatype f64 = Fin real | PInf | NInf

datatype exn =
    ReadError            \<comment> \<open>\<open>pd.read_csv\<close> or the selection of the five columns raised\<close>
  | IntCastingNaNError   \<comment> \<open>\<open>.astype(int)\<close> met a value that is not finite\<close>
  | EncodeError          \<comment> \<open>\<open>model.encode\<close> raised\<close>
  | RuntimeError         \<comment> \<open>torch was given two matrices whose shapes do not fit\<close>
  | ValueError           \<comment> \<open>a column of the wrong length was assigned to a frame\<close>
  | KeyError             \<comment> \<open>a column that a frame does not have was read\<close>
  | OverflowError        \<comment> \<open>a Python int too large for the column it is compared with\<close>
  | TypeError            \<comment> \<open>a comparison between values that do not compare\<close>
  | HTTPException nat

text \<open>A cell of the column \<open>Bedrooms\<close>: an int64 once \<open>load_source\<close> has cast the column,
  and before that the cell as \<open>pd.read_csv\<close> delivered it (NaN is \<open>None\<close>).\<close>

datatype bedcell = Int64 int | Raw "string option"

text \<open>
  What pandas, numpy and sentence_transformers do is not code of the repository; the
  engine is modelled over a record of these library functions:
  \<^item> \<open>is_na\<close>: the field texts \<open>pd.read_csv\<close> reads as NaN (its default NA strings);
  \<^item> \<open>to_num\<close>: the float \<open>pd.to_numeric(..., errors="coerce")\<close> reads from a text
    (\<open>None\<close> where it coerces to NaN);
  \<^item> \<open>embed\<close>: the vector \<open>model.encode\<close> gives one text (\<open>None\<close> when the call raises);
  \<^item> \<open>encodes_empty\<close>: whether \<open>model.encode\<close> accepts an empty list of texts (recent
    versions of sentence_transformers return an empty tensor for it, earlier ones raise);
  \<^item> \<open>cos_sim\<close>: \<open>util.cos_sim\<close> of the query vector and one corpus vector;
  \<^item> \<open>float_bound\<close>: the float a Python int is compared as with a float64 column
    (\<open>None\<close> when the comparison raises \<open>OverflowError\<close>, as for \<open>10**400\<close>);
  \<^item> \<open>int_bound\<close>: the same for an int64 column;
  \<^item> \<open>raw_ge\<close>: \<open>column >= bound\<close> on a \<open>Bedrooms\<close> column that has not been cast, whose
    outcome depends on the type \<open>pd.read_csv\<close> gave the column;
  \<^item> \<open>fmul\<close>, \<open>fadd\<close>: the product and the sum of two float64, which round.
\<close>

record lib =
  is_na :: "string \<Rightarrow> bool"
  to_num :: "string \<Rightarrow> f64 option"
  embed :: "string \<Rightarrow> vec option"
  encodes_empty :: bool
  cos_sim :: "vec \<Rightarrow> vec \<Rightarrow> real"
  float_bound :: "int \<Rightarrow> real option"
  int_bound :: "int \<Rightarrow> int option"
  raw_ge :: "bedcell list \<Rightarrow> int \<Rightarrow> exn + bool list"
  fmul :: "real \<Rightarrow> real \<Rightarrow> real"
  fadd :: "real \<Rightarrow> real \<Rightarrow> real"

subsection \<open>Configuration, rows and the engine's state\<close>

record config =
  w_hard :: real
  w_semantic :: real

definition CONFIG :: config where
  "CONFIG = \<lparr>w_hard = 1/2, w_semantic = 1/2\<rparr>"

text \<open>A row of the CSV file: the text of the five fields \<open>load_source\<close> selects.\<close>

record raw_row =
  price :: string
  bedrooms :: string
  bathrooms :: string
  cityname :: string
  body :: string

text \<open>
  A row of \<open>self.data\<close>; a cell that is NaN is \<open>None\<close>. After a complete cleaning no
  \<open>Price\<close> is NaN and every \<open>Bedrooms\<close> is an int64.
\<close>

record row =
  Price :: "f64 option"
  Bedrooms :: bedcell
  Bathrooms :: "string option"
  City :: "string option"
  Description :: string

record engine =
  config :: config
  data :: "row list"
  corpus_embeddings :: "vec list option"

definition PropertyMatchEngine :: "config \<Rightarrow> engine" where
  \<comment> \<open>\<open>__init__\<close>: \<open>self.data = pd.DataFrame()\<close>, \<open>self.corpus_embeddings = None\<close>\<close>
  "PropertyMatchEngine cfg = \<lparr>config = cfg, data = [], corpus_embeddings = None\<rparr>"

subsection \<open>load\_source\<close>

definition read_cell :: "lib \<Rightarrow> string \<Rightarrow> string option" where
  \<comment> \<open>a field as \<open>pd.read_csv\<close> delivers it: NaN for an NA string\<close>
  "read_cell l s = (if is_na l s then None else Some s)"

definition to_numeric :: "lib \<Rightarrow> string option \<Rightarrow> f64 option" where
  \<comment> \<open>\<open>pd.to_numeric(col, errors="coerce")\<close> on one cell\<close>
  "to_numeric l c = (case c of None \<Rightarrow> None | Some s \<Rightarrow> to_num l s)"

definition astype_int :: "real \<Rightarrow> int" where
  \<comment> \<open>the cast of a finite float64 to int64: it truncates towards zero, and a value
      outside the int64 range comes out as \<open>-2^63\<close>\<close>
  "astype_int x =
     (let t = (if 0 \<le> x then \<lfloor>x\<rfloor> else \<lceil>x\<rceil>)
      in if - (2 ^ 63) \<le> t \<and> t < 2 ^ 63 then t else - (2 ^ 63))"

definition cast_bedrooms :: "f64 option \<Rightarrow> exn + int" where
  \<comment> \<open>\<open>.fillna(0).astype(int)\<close> on one cell of the numeric column: NaN becomes 0, an
      infinity makes the cast raise\<close>
  "cast_bedrooms c =
     (case c of
        None \<Rightarrow> Inr 0
      | Some (Fin x) \<Rightarrow> Inr (astype_int x)
      | Some PInf \<Rightarrow> Inl IntCastingNaNError
      | Some NInf \<Rightarrow> Inl IntCastingNaNError)"

definition placeholder :: string where
  "placeholder = ''No description available''"

definition half_clean_row :: "lib \<Rightarrow> raw_row \<Rightarrow> row" where
  \<comment> \<open>lines 48 to 60 on one row: rename, \<open>fillna\<close> the description, \<open>to_numeric\<close> the
      price; the bedrooms are still as read\<close>
  "half_clean_row l r =
     \<lparr>Price = to_numeric l (read_cell l (price r)),
      Bedrooms = Raw (read_cell l (bedrooms r)),
      Bathrooms = read_cell l (bathrooms r),
      City = read_cell l (cityname r),
      Description = (case read_cell l (body r) of None \<Rightarrow> placeholder | Some d \<Rightarrow> d)\<rparr>"

definition clean_row :: "lib \<Rightarrow> raw_row \<Rightarrow> exn + row option" where
  \<comment> \<open>lines 48 to 66 on one row: the cast of the bedrooms (lines 61 to 65) comes before
      \<open>dropna(subset=["Price"])\<close> (line 66), so it raises also on a row that would be
      dropped; a dropped row is \<open>None\<close>\<close>
  "clean_row l r =
     (case cast_bedrooms (to_numeric l (read_cell l (bedrooms r))) of
        Inl e \<Rightarrow> Inl e
      | Inr n \<Rightarrow>
          Inr (case to_numeric l (read_cell l (price r)) of
                 None \<Rightarrow> None
               | Some p \<Rightarrow>
                   Some \<lparr>Price = Some p,
                         Bedrooms = Int64 n,
                         Bathrooms = read_cell l (bathrooms r),
                         City = read_cell l (cityname r),
                         Description = (case read_cell l (body r) of
                                          None \<Rightarrow> placeholder | Some d \<Rightarrow> d)\<rparr>))"

fun clean_rows :: "lib \<Rightarrow> raw_row list \<Rightarrow> exn + row list" where
  "clean_rows l [] = Inr []"
| "clean_rows l (r # rs) =
     (case clean_row l r of
        Inl e \<Rightarrow> Inl e
      | Inr c \<Rightarrow>
          (case clean_rows l rs of
             Inl e \<Rightarrow> Inl e
           | Inr cs \<Rightarrow> Inr (case c of None \<Rightarrow> cs | Some x \<Rightarrow> x # cs)))"

definition clean :: "lib \<Rightarrow> raw_row list \<Rightarrow> exn + row list" where
  \<comment> \<open>lines 43 to 66: \<open>.head(1000)\<close> comes first, the cleaning after it\<close>
  "clean l df = clean_rows l (take 1000 df)"

fun encode_all :: "lib \<Rightarrow> string list \<Rightarrow> vec list option" where
  \<comment> \<open>one vector per text, in order; the call raises when the provider fails on a text\<close>
  "encode_all l [] = Some []"
| "encode_all l (d # ds) =
     (case embed l d of
        None \<Rightarrow> None
      | Some v \<Rightarrow> (case encode_all l ds of None \<Rightarrow> None | Some vs \<Rightarrow> Some (v # vs)))"

definition encode :: "lib \<Rightarrow> string list \<Rightarrow> vec list option" where
  \<comment> \<open>\<open>model.encode(descriptions, convert_to_tensor=True)\<close>\<close>
  "encode l ds = (if ds = [] \<and> \<not> encodes_empty l then None else encode_all l ds)"

definition descriptions :: "lib \<Rightarrow> raw_row list \<Rightarrow> string list" where
  \<comment> \<open>line 70: \<open>self.data["Description"].tolist()\<close>, what \<open>model.encode\<close> receives; when
      the cleaning raises, \<open>model.encode\<close> is not called and receives nothing\<close>
  "descriptions l df = (case clean l df of Inl e \<Rightarrow> [] | Inr rows \<Rightarrow> map Description rows)"

definition load_source_try :: "lib \<Rightarrow> raw_row list option \<Rightarrow> engine \<Rightarrow> engine \<times> exn option" where
  \<comment> \<open>the body of the \<open>try\<close>: the engine as the body leaves it, and the exception that
      ended it, if any. The source is \<open>None\<close> when the file cannot be read. \<open>self.data\<close>
      is assigned at line 43 and updated in place: when the cast of the bedrooms raises,
      it holds the first 1000 rows as lines 48 to 60 left them, and it holds the cleaned
      rows before the descriptions are encoded.\<close>
  "load_source_try l src eng =
     (case src of
        None \<Rightarrow> (eng, Some ReadError)
      | Some df \<Rightarrow>
          (case clean l df of
             Inl e \<Rightarrow> (eng\<lparr>data := map (half_clean_row l) (take 1000 df)\<rparr>, Some e)
           | Inr rows \<Rightarrow>
               (let eng1 = eng\<lparr>data := rows\<rparr> in
                case encode l (descriptions l df) of
                  None \<Rightarrow> (eng1, Some EncodeError)
                | Some vs \<Rightarrow> (eng1\<lparr>corpus_embeddings := Some vs\<rparr>, None))))"

definition load_source :: "lib \<Rightarrow> raw_row list option \<Rightarrow> engine \<Rightarrow> exn + engine" where
  \<comment> \<open>\<open>try: ...; return self\<close> and \<open>except Exception: logging.error(...); return self\<close>\<close>
  "load_source l src eng =
     (case load_source_try l src eng of
        (eng', None) \<Rightarrow> Inr eng'
      | (eng', Some e) \<Rightarrow> Inr eng')"

subsection \<open>Scoring and search\<close>

record prefs =
  query :: string
  max_price :: "int option"
  min_bedrooms :: "int option"

text \<open>
  Both callers build \<open>prefs\<close> with the three keys. main.py declares the two bounds
  \<open>Optional[int]\<close>, so a bound can be Python's \<open>None\<close>. pandas compares a column with the
  scalar \<open>None\<close> without raising: every entry of the result is \<open>False\<close>. A bound that is
  an int is handed to numpy, which raises when it cannot convert it.
\<close>

fun f64_le :: "f64 \<Rightarrow> real \<Rightarrow> bool" where
  "f64_le (Fin a) x = (a \<le> x)"
| "f64_le PInf x = False"
| "f64_le NInf x = True"

definition astype_float :: "bool \<Rightarrow> real" where
  "astype_float b = (if b then 1 else 0)"

definition price_match :: "lib \<Rightarrow> row list \<Rightarrow> int option \<Rightarrow> exn + real list" where
  \<comment> \<open>line 83: \<open>(self.data["Price"] <= prefs["max_price"]).astype(float)\<close>; a NaN price
      compares false\<close>
  "price_match l rows bound =
     (case bound of
        None \<Rightarrow> Inr (map (\<lambda>r. 0) rows)
      | Some m \<Rightarrow>
          (case float_bound l m of
             None \<Rightarrow> Inl OverflowError
           | Some x \<Rightarrow>
               Inr (map (\<lambda>r. astype_float
                            (case Price r of None \<Rightarrow> False | Some v \<Rightarrow> f64_le v x)) rows)))"

fun int_column :: "row list \<Rightarrow> int list option" where
  \<comment> \<open>the column \<open>Bedrooms\<close> when it is an int64 column\<close>
  "int_column [] = Some []"
| "int_column (r # rs) =
     (case Bedrooms r of
        Raw c \<Rightarrow> None
      | Int64 n \<Rightarrow> (case int_column rs of None \<Rightarrow> None | Some ns \<Rightarrow> Some (n # ns)))"

definition bed_match :: "lib \<Rightarrow> row list \<Rightarrow> int option \<Rightarrow> exn + real list" where
  \<comment> \<open>line 84: \<open>(self.data["Bedrooms"] >= prefs["min_bedrooms"]).astype(float)\<close>\<close>
  "bed_match l rows bound =
     (case bound of
        None \<Rightarrow> Inr (map (\<lambda>r. 0) rows)
      | Some b \<Rightarrow>
          (case int_column rows of
             Some ns \<Rightarrow>
               (case int_bound l b of
                  None \<Rightarrow> Inl OverflowError
                | Some b' \<Rightarrow> Inr (map (\<lambda>n. astype_float (b' \<le> n)) ns))
           | None \<Rightarrow>
               (case raw_ge l (map Bedrooms rows) b of
                  Inl e \<Rightarrow> Inl e
                | Inr bs \<Rightarrow> Inr (map astype_float bs))))"

definition calculate_hard_scores :: "lib \<Rightarrow> row list \<Rightarrow> prefs \<Rightarrow> exn + real list" where
  \<comment> \<open>\<open>_calculate_hard_scores\<close>, on the rows of a frame that has the columns:
      \<open>(price_match + bed_match) / 2\<close>, row by row\<close>
  "calculate_hard_scores l rows p =
     (case price_match l rows (max_price p) of
        Inl e \<Rightarrow> Inl e
      | Inr pm \<Rightarrow>
          (case bed_match l rows (min_bedrooms p) of
             Inl e \<Rightarrow> Inl e
           | Inr bm \<Rightarrow> Inr (map (\<lambda>(a, b). (a + b) / 2) (zip pm bm))))"

record scored =
  rec :: row
  Semantic_Score :: real
  Hard_Score :: real
  Final_Score :: real

datatype frame =
    NoColumns              \<comment> \<open>\<open>pd.DataFrame()\<close>\<close>
  | Scored "scored list"   \<comment> \<open>the rows of \<open>self.data\<close> with the three score columns\<close>

definition combine :: "lib \<Rightarrow> config \<Rightarrow> row list \<Rightarrow> real list \<Rightarrow> real list \<Rightarrow> scored list" where
  \<comment> \<open>steps 3 and 4 of \<open>run_search\<close>: the score columns beside the rows, the final score
      \<open>(w_h * Hard_Score) + (w_s * Semantic_Score)\<close> in float64\<close>
  "combine l cfg rows sems hards =
     map (\<lambda>(r, s, h). \<lparr>rec = r, Semantic_Score = s, Hard_Score = h,
                        Final_Score = fadd l (fmul l (w_hard cfg) h) (fmul l (w_semantic cfg) s)\<rparr>)
         (zip rows (zip sems hards))"

definition run_search ::
  "(scored list \<Rightarrow> scored list) \<Rightarrow> lib \<Rightarrow> engine \<Rightarrow> prefs \<Rightarrow> exn + frame" where
  \<comment> \<open>\<open>sort_values\<close> stands for \<open>df.sort_values(by="Final_Score", ascending=False)\<close>,
      called with pandas' default sorting algorithm (\<open>kind="quicksort"\<close>, which pandas
      documents as not stable). Embeddings of no text at all are the tensor without
      columns that \<open>model.encode([])\<close> returned, which \<open>util.cos_sim\<close> cannot multiply with
      the query.\<close>
  "run_search sort_values l eng p =
     (if data eng = [] \<or> corpus_embeddings eng = None then Inr NoColumns
      else case corpus_embeddings eng of
        None \<Rightarrow> Inr NoColumns
      | Some embs \<Rightarrow>
          (case embed l (query p) of
             None \<Rightarrow> Inl EncodeError
           | Some query_emb \<Rightarrow>
               (let semantic_scores = map (cos_sim l query_emb) embs in
                if embs = [] then Inl RuntimeError
                else if length semantic_scores \<noteq> length (data eng) then Inl ValueError
                else case calculate_hard_scores l (data eng) p of
                  Inl e \<Rightarrow> Inl e
                | Inr hard_scores \<Rightarrow>
                    Inr (Scored (sort_values
                      (combine l (config eng) (data eng) semantic_scores hard_scores))))))"

definition run_search_method ::
  "(scored list \<Rightarrow> scored list) \<Rightarrow> lib \<Rightarrow> prefs \<Rightarrow> engine \<Rightarrow> (exn + frame) \<times> engine" where
  \<comment> \<open>the method with the engine it leaves: \<open>run_search\<close> assigns no attribute of
      \<open>self\<close> (step 3 works on \<open>self.data.copy()\<close>)\<close>
  "run_search_method sort_values l p eng = (run_search sort_values l eng p, eng)"

subsection \<open>The sub-criteria of the ConstraintScorer in the specification's words\<close>

definition priceOk :: "row \<Rightarrow> int \<Rightarrow> real" where
  "priceOk r maxPrice =
     (case Price r of
        None \<Rightarrow> 0
      | Some v \<Rightarrow> if f64_le v (real_of_int maxPrice) then 1 else 0)"

definition bedroomsOk :: "row \<Rightarrow> int \<Rightarrow> real" where
  "bedroomsOk r minBedrooms =
     (case Bedrooms r of
        Raw c \<Rightarrow> 0
      | Int64 n \<Rightarrow> if minBedrooms \<le> n then 1 else 0)"

subsection \<open>The HTTP handler of main.py\<close>

record SearchRequest =
  req_query :: string
  req_max_price :: "int option"
  req_min_bedrooms :: "int option"
  threshold :: "f64 option option"   \<comment> \<open>\<open>Optional[float]\<close>: \<open>None\<close>, or a float that may be NaN\<close>

record response =
  query_received :: string
  total_matches_above_threshold :: nat
  results :: "scored list"

definition ge_threshold :: "real \<Rightarrow> f64 option option \<Rightarrow> bool" where
  \<comment> \<open>one entry of \<open>results["Final_Score"] >= request.threshold\<close>\<close>
  "ge_threshold x t =
     (case t of
        None \<Rightarrow> False
      | Some None \<Rightarrow> False
      | Some (Some v) \<Rightarrow> f64_le v x)"

definition fillna0 :: "scored \<Rightarrow> scored" where
  \<comment> \<open>\<open>.fillna(0)\<close>: a NaN cell becomes 0 (in a text cell, the text of the number)\<close>
  "fillna0 s =
     s\<lparr>rec := (rec s)
        \<lparr>Price := (case Price (rec s) of None \<Rightarrow> Some (Fin 0) | Some v \<Rightarrow> Some v),
         Bedrooms := (case Bedrooms (rec s) of Raw None \<Rightarrow> Raw (Some ''0'') | c \<Rightarrow> c),
         Bathrooms := (case Bathrooms (rec s) of None \<Rightarrow> Some ''0'' | Some b \<Rightarrow> Some b),
         City := (case City (rec s) of None \<Rightarrow> Some ''0'' | Some c \<Rightarrow> Some c)\<rparr>\<rparr>"

definition perform_search ::
  "(scored list \<Rightarrow> scored list) \<Rightarrow> lib \<Rightarrow> engine \<Rightarrow> SearchRequest \<Rightarrow> exn + response" where
  "perform_search sort_values l eng request =
     (if data eng = [] then Inl (HTTPException 500)
      else case run_search sort_values l eng
                  \<lparr>query = req_query request, max_price = req_max_price request,
                   min_bedrooms = req_min_bedrooms request\<rparr> of
        Inl e \<Rightarrow> Inl e
      | Inr NoColumns \<Rightarrow> Inl KeyError
      | Inr (Scored rs) \<Rightarrow>
          (let masked = filter (\<lambda>r. ge_threshold (Final_Score r) (threshold request)) rs in
           Inr \<lparr>query_received = req_query request,
                total_matches_above_threshold = length masked,
                results = take 10 (map fillna0 masked)\<rparr>))"

subsection \<open>The similarity score\<close>






subsection \<open>A sample corpus\<close>

definition sample_lib :: lib where
  "sample_lib =
     \<lparr>is_na = (\<lambda>s. s = []),
      to_num = map_of [(''2000'', Fin 2000), (''3000'', Fin 3000), (''1'', Fin 1),
                       (''2'', Fin 2), (''inf'', PInf)],
      embed = (\<lambda>s. Some [real (length s), 1]),
      encodes_empty = True,
      cos_sim = (\<lambda>a b. if a = b then 1 else 0),
      float_bound = (\<lambda>n. if \<bar>n\<bar> < 2 ^ 1024 then Some (real_of_int n) else None),
      int_bound = (\<lambda>n. Some n),
      raw_ge = (\<lambda>cells b. Inl TypeError),
      fmul = (\<lambda>x y. x * y),
      fadd = (\<lambda>x y. x + y)\<rparr>"

definition failing_lib :: lib where
  \<comment> \<open>the same libraries with an embedding provider that is down\<close>
  "failing_lib = sample_lib\<lparr>embed := (\<lambda>s. None)\<rparr>"

definition sample_sort :: "scored list \<Rightarrow> scored list" where
  "sample_sort rs = sort_key (\<lambda>r. - Final_Score r) rs"

definition flat :: raw_row where
  "flat = \<lparr>price = ''2000'', bedrooms = ''2'', bathrooms = ''1'', cityname = ''Austin'',
           body = ''sunny modern flat''\<rparr>"

definition basement :: raw_row where
  "basement = \<lparr>price = ''3000'', bedrooms = ''1'', bathrooms = [], cityname = ''Dallas'',
               body = ''dark basement''\<rparr>"

definition undescribed :: raw_row where
  "undescribed = \<lparr>price = ''2000'', bedrooms = ''studio'', bathrooms = ''1'', cityname = [],
                  body = []\<rparr>"

definition unpriced :: raw_row where
  "unpriced = \<lparr>price = ''call us'', bedrooms = ''2'', bathrooms = ''1'', cityname = ''Austin'',
               body = ''bright loft''\<rparr>"

definition palace :: raw_row where
  "palace = \<lparr>price = ''call us'', bedrooms = ''inf'', bathrooms = ''1'', cityname = ''Austin'',
             body = ''rooms without end''\<rparr>"

definition flat_row :: row where
  "flat_row = \<lparr>Price = Some (Fin 2000), Bedrooms = Int64 2, Bathrooms = Some ''1'',
               City = Some ''Austin'', Description = ''sunny modern flat''\<rparr>"

definition basement_row :: row where
  "basement_row = \<lparr>Price = Some (Fin 3000), Bedrooms = Int64 1, Bathrooms = None,
                   City = Some ''Dallas'', Description = ''dark basement''\<rparr>"

definition palace_row :: row where
  \<comment> \<open>the row palace as lines 48 to 60 leave it\<close>
  "palace_row = \<lparr>Price = None, Bedrooms = Raw (Some ''inf''), Bathrooms = Some ''1'',
                 City = Some ''Austin'', Description = ''rooms without end''\<rparr>"

definition built_engine :: engine where
  \<comment> \<open>the engine after \<open>load_source\<close> has read the rows flat, unpriced, basement\<close>
  "built_engine = \<lparr>config = CONFIG, data = [flat_row, basement_row],
                    corpus_embeddings = Some [[17, 1], [13, 1]]\<rparr>"

definition USER_PREFS :: prefs where
  "USER_PREFS = \<lparr>query = ''sunny modern flat'', max_price = Some 2500, min_bedrooms = Some 2\<rparr>"

section \<open>Properties\<close>

subsection \<open>Auxiliary facts\<close>

lemmas sample_defs = sample_lib_def failing_lib_def sample_sort_def flat_def basement_def
  undescribed_def unpriced_def palace_def flat_row_def basement_row_def palace_row_def
  USER_PREFS_def CONFIG_def PropertyMatchEngine_def

lemmas clean_defs = clean_def clean_row_def half_clean_row_def cast_bedrooms_def to_numeric_def
  read_cell_def astype_int_def placeholder_def descriptions_def encode_def




lemma encode_all_Some:
  "encode_all l ds = Some vs \<Longrightarrow> list_all2 (\<lambda>d v. embed l d = Some v) ds vs"
  by (induction ds arbitrary: vs) (auto split: option.splits)

lemma encode_Some:
  "encode l ds = Some vs \<Longrightarrow> list_all2 (\<lambda>d v. embed l d = Some v) ds vs"
  by (auto simp add: encode_def dest: encode_all_Some split: if_splits)



lemma length_clean_rows: "clean_rows l rs = Inr cs \<Longrightarrow> length cs \<le> length rs"
  by (induction rs arbitrary: cs) (auto split: option.splits sum.splits)

lemma clean_rows_replicate:
  "clean_row l r = Inr (Some c) \<Longrightarrow> clean_rows l (replicate n r) = Inr (replicate n c)"
  by (induction n) simp_all

lemma hard_score_values: "(priceOk r m + bedroomsOk r b) / 2 \<in> {0, 1/2, 1}"
  by (simp add: priceOk_def bedroomsOk_def split: option.split bedcell.split)

lemma bed_match_int:
  assumes "int_column rows = Some ns" and "int_bound l b = Some b"
  shows "bed_match l rows (Some b) = Inr (map (\<lambda>r. bedroomsOk r b) rows)"
proof -
  have "map (\<lambda>n. astype_float (b \<le> n)) ns = map (\<lambda>r. bedroomsOk r b) rows"
    using assms(1)
    by (induction rows arbitrary: ns)
       (auto simp add: astype_float_def bedroomsOk_def split: bedcell.splits option.splits)
  then show ?thesis using assms by (simp add: bed_match_def)
qed

lemma price_match_float:
  assumes "float_bound l m = Some (real_of_int m)"
  shows "price_match l rows (Some m) = Inr (map (\<lambda>r. priceOk r m) rows)"
  using assms by (simp add: price_match_def priceOk_def astype_float_def
      cong: option.case_cong split: option.split)

lemma halve_zip: "map (\<lambda>(a, b). (a + b) / 2) (zip (map f rows) (map g rows))
    = map (\<lambda>r. (f r + g r) / (2::real)) rows"
  by (induction rows) simp_all











subsection \<open>Searching an engine that is not ready\<close>

text \<open>
  Claim C1, as the code has it. \<open>run_search\<close> on an engine with no rows or with no
  embeddings raises nothing: it logs an error and returns the frame without columns,
  \<open>pd.DataFrame()\<close>. The caller that tells "not ready" from "no matches" is the HTTP
  handler, which raises: status 500 when the engine has no rows, and a \<open>KeyError\<close> on the
  column \<open>Final_Score\<close> when it has rows and no embeddings.
\<close>

theorem run_search_not_ready:
  assumes "data eng = [] \<or> corpus_embeddings eng = None"
  shows "run_search srt l eng p = Inr NoColumns
         \<and> perform_search srt l eng req
             = Inl (if data eng = [] then HTTPException 500 else KeyError)"
proof -
  have r: "run_search srt l eng p = Inr NoColumns" for p
    using assms by (auto simp add: run_search_def)
  then show ?thesis by (simp add: perform_search_def)
qed

theorem run_search_not_ready_witness:
  "(data \<lparr>config = CONFIG, data = [flat_row], corpus_embeddings = None\<rparr> = []
      \<or> corpus_embeddings \<lparr>config = CONFIG, data = [flat_row], corpus_embeddings = None\<rparr> = None)
   \<and> run_search sample_sort sample_lib
         \<lparr>config = CONFIG, data = [flat_row], corpus_embeddings = None\<rparr> USER_PREFS
       = Inr NoColumns"
  using run_search_not_ready [of "\<lparr>config = CONFIG, data = [flat_row], corpus_embeddings = None\<rparr>"
      sample_sort sample_lib USER_PREFS]
  by simp

text \<open>
  The claim as the specification words it asks for a failure. On a freshly constructed
  engine the search returns normally, with the empty frame.
\<close>

theorem run_search_empty_corpus_returns:
  "run_search sample_sort sample_lib (PropertyMatchEngine CONFIG) USER_PREFS = Inr NoColumns"
  by (simp add: run_search_def PropertyMatchEngine_def)

subsection \<open>The hard score\<close>

text \<open>
  Claim C2, as the code has it. When the query carries both bounds and the two column
  comparisons take them as they are, the hard score of every cleaned row is the sum of
  the two binary sub-criteria divided by 2, the literal of line 85, and it is 0, 1/2
  or 1.
\<close>

theorem hard_scores_formula:
  assumes "max_price p = Some m" and "min_bedrooms p = Some b"
    and "float_bound l m = Some (real_of_int m)" and "int_bound l b = Some b"
    and "int_column rows = Some ns"
  shows "calculate_hard_scores l rows p
           = Inr (map (\<lambda>r. (priceOk r m + bedroomsOk r b) / 2) rows)
         \<and> set (map (\<lambda>r. (priceOk r m + bedroomsOk r b) / 2) rows) \<subseteq> {0, 1/2, 1}"
proof
  show "calculate_hard_scores l rows p
           = Inr (map (\<lambda>r. (priceOk r m + bedroomsOk r b) / 2) rows)"
    using assms
    by (simp add: calculate_hard_scores_def price_match_float bed_match_int halve_zip)
  show "set (map (\<lambda>r. (priceOk r m + bedroomsOk r b) / 2) rows) \<subseteq> {0, 1/2, 1}"
    unfolding set_map by (rule image_subsetI) (rule hard_score_values)
qed

theorem hard_scores_formula_witness:
  "max_price USER_PREFS = Some 2500 \<and> min_bedrooms USER_PREFS = Some 2
   \<and> float_bound sample_lib 2500 = Some 2500 \<and> int_bound sample_lib 2 = Some 2
   \<and> int_column [flat_row, basement_row] = Some [2, 1]
   \<and> calculate_hard_scores sample_lib [flat_row, basement_row] USER_PREFS = Inr [1, 0]"
proof -
  have a: "max_price USER_PREFS = Some 2500" and b: "min_bedrooms USER_PREFS = Some 2"
    by (simp_all add: USER_PREFS_def)
  have c: "float_bound sample_lib 2500 = Some (real_of_int 2500)"
    and d: "int_bound sample_lib 2 = Some 2"
    by (simp_all add: sample_lib_def)
  have e: "int_column [flat_row, basement_row] = Some [2, 1]"
    by (simp add: flat_row_def basement_row_def)
  have h: "(priceOk flat_row 2500 + bedroomsOk flat_row 2) / 2 = 1"
    "(priceOk basement_row 2500 + bedroomsOk basement_row 2) / 2 = 0"
    by (simp_all add: priceOk_def bedroomsOk_def flat_row_def basement_row_def)
  from hard_scores_formula [OF a b c d e] h a b c d e
  show ?thesis by simp
qed

text \<open>
  The claim as the specification words it holds for every query that carries both
  bounds. With the bound \<open>10 ^ 400\<close> on the price, which no float64 holds, the comparison
  of line 83 raises and no row gets a hard score.
\<close>

theorem hard_scores_overflow_counterexample:
  "calculate_hard_scores sample_lib [flat_row]
     \<lparr>query = ''sunny modern flat'', max_price = Some (10 ^ 400), min_bedrooms = Some 2\<rparr>
   = Inl OverflowError"
  by (simp add: calculate_hard_scores_def price_match_def sample_lib_def)

text \<open>
  Claim C4, as the code has it. The scorer has no case for a bound that is absent. A
  bound that reaches it as \<open>None\<close> is met by no row: that sub-criterion contributes 0 to
  the sum for every row. The scoring returns a score for every row when both bounds are
  \<open>None\<close>, and when one is \<open>None\<close> and the comparison takes the other as it is.
\<close>

theorem hard_scores_absent_bound:
  "(max_price p = None \<and> min_bedrooms p = None \<longrightarrow>
      calculate_hard_scores l rows p = Inr (map (\<lambda>r. 0) rows))
   \<and> (max_price p = None \<and> min_bedrooms p = Some b \<and> int_bound l b = Some b
        \<and> int_column rows = Some ns \<longrightarrow>
      calculate_hard_scores l rows p = Inr (map (\<lambda>r. (0 + bedroomsOk r b) / 2) rows))
   \<and> (max_price p = Some m \<and> min_bedrooms p = None
        \<and> float_bound l m = Some (real_of_int m) \<longrightarrow>
      calculate_hard_scores l rows p = Inr (map (\<lambda>r. (priceOk r m + 0) / 2) rows))"
proof (intro conjI impI)
  assume "max_price p = None \<and> min_bedrooms p = None"
  then show "calculate_hard_scores l rows p = Inr (map (\<lambda>r. 0) rows)"
    using halve_zip [of "\<lambda>r. 0" rows "\<lambda>r. 0"]
    by (simp add: calculate_hard_scores_def price_match_def bed_match_def)
next
  assume a: "max_price p = None \<and> min_bedrooms p = Some b \<and> int_bound l b = Some b
        \<and> int_column rows = Some ns"
  then have "bed_match l rows (Some b) = Inr (map (\<lambda>r. bedroomsOk r b) rows)"
    by (simp add: bed_match_int)
  with a show "calculate_hard_scores l rows p = Inr (map (\<lambda>r. (0 + bedroomsOk r b) / 2) rows)"
    using halve_zip [of "\<lambda>r. 0" rows "\<lambda>r. bedroomsOk r b"]
    by (simp add: calculate_hard_scores_def price_match_def)
next
  assume a: "max_price p = Some m \<and> min_bedrooms p = None
        \<and> float_bound l m = Some (real_of_int m)"
  then have "price_match l rows (Some m) = Inr (map (\<lambda>r. priceOk r m) rows)"
    by (simp add: price_match_float)
  with a show "calculate_hard_scores l rows p = Inr (map (\<lambda>r. (priceOk r m + 0) / 2) rows)"
    using halve_zip [of "\<lambda>r. priceOk r m" rows "\<lambda>r. 0"]
    by (simp add: calculate_hard_scores_def bed_match_def)
qed

theorem hard_scores_absent_bound_witness:
  "calculate_hard_scores sample_lib [flat_row, basement_row]
     \<lparr>query = ''sunny modern flat'', max_price = None, min_bedrooms = None\<rparr> = Inr [0, 0]
   \<and> calculate_hard_scores sample_lib [flat_row, basement_row]
     \<lparr>query = ''sunny modern flat'', max_price = None, min_bedrooms = Some 2\<rparr> = Inr [1/2, 0]
   \<and> calculate_hard_scores sample_lib [flat_row, basement_row]
     \<lparr>query = ''sunny modern flat'', max_price = Some 2500, min_bedrooms = None\<rparr> = Inr [1/2, 0]"
proof -
  have e: "int_column [flat_row, basement_row] = Some [2, 1]"
    by (simp add: flat_row_def basement_row_def)
  have c: "float_bound sample_lib 2500 = Some (real_of_int 2500)"
    and d: "int_bound sample_lib 2 = Some 2"
    by (simp_all add: sample_lib_def)
  have h: "bedroomsOk flat_row 2 = 1" "bedroomsOk basement_row 2 = 0"
    "priceOk flat_row 2500 = 1" "priceOk basement_row 2500 = 0"
    by (simp_all add: priceOk_def bedroomsOk_def flat_row_def basement_row_def)
  from hard_scores_absent_bound
      [where p = "\<lparr>query = ''sunny modern flat'', max_price = None, min_bedrooms = None\<rparr>"
        and l = sample_lib and rows = "[flat_row, basement_row]" and b = 2 and ns = "[2, 1]"
        and m = 2500]
    hard_scores_absent_bound
      [where p = "\<lparr>query = ''sunny modern flat'', max_price = None, min_bedrooms = Some 2\<rparr>"
        and l = sample_lib and rows = "[flat_row, basement_row]" and b = 2 and ns = "[2, 1]"
        and m = 2500]
    hard_scores_absent_bound
      [where p = "\<lparr>query = ''sunny modern flat'', max_price = Some 2500, min_bedrooms = None\<rparr>"
        and l = sample_lib and rows = "[flat_row, basement_row]" and b = 2 and ns = "[2, 1]"
        and m = 2500]
    e c d h
  show ?thesis by simp
qed

text \<open>
  With both bounds absent the specification expects the hard score 1 for every row; the
  row of the flat at 2000 with two bedrooms gets 0.
\<close>

theorem hard_scores_absent_bound_counterexample:
  "calculate_hard_scores sample_lib [flat_row]
     \<lparr>query = ''sunny modern flat'', max_price = None, min_bedrooms = None\<rparr> = Inr [0]"
  by (simp add: calculate_hard_scores_def price_match_def bed_match_def)


subsection \<open>The complete ranked sequence\<close>



subsection \<open>Ingestion\<close>



text \<open>
  Claim C8, as the code has it. \<open>load_source\<close> raises nothing: whatever happens inside it
  is caught and logged, and the engine is returned. An unreadable source leaves the
  engine as it was. A source whose cleaning completes with no valid row leaves an engine
  with no rows. When the build fails on an engine that had no embeddings, the engine
  still has none; a search on an engine without embeddings or without rows returns the
  frame without columns.
\<close>

theorem load_source_never_raises:
  assumes "load_source_try l src eng = (eng', err)"
  shows "load_source l src eng = Inr eng'
         \<and> (src = None \<longrightarrow> eng' = eng \<and> err = Some ReadError)
         \<and> (\<forall>df. src = Some df \<and> clean l df = Inr [] \<longrightarrow> data eng' = [])
         \<and> (err \<noteq> None \<and> corpus_embeddings eng = None \<longrightarrow>
              corpus_embeddings eng' = None \<and> run_search srt l2 eng' p = Inr NoColumns)
         \<and> (data eng' = [] \<longrightarrow> run_search srt l2 eng' p = Inr NoColumns)"
proof (intro conjI impI allI)
  show "load_source l src eng = Inr eng'"
    using assms by (cases err) (simp_all add: load_source_def)
  show "eng' = eng" "err = Some ReadError" if "src = None"
    using assms that by (simp_all add: load_source_try_def)
  show "data eng' = []" if "src = Some df \<and> clean l df = Inr []" for df
    using assms that by (auto simp add: load_source_try_def Let_def split: option.splits)
  show "run_search srt l2 eng' p = Inr NoColumns" if "data eng' = []"
    using that by (simp add: run_search_def)
  assume f: "err \<noteq> None \<and> corpus_embeddings eng = None"
  with assms show none: "corpus_embeddings eng' = None"
    by (auto simp add: load_source_try_def Let_def split: option.splits sum.splits)
  then show "run_search srt l2 eng' p = Inr NoColumns"
    by (simp add: run_search_def)
qed

theorem load_source_never_raises_witness:
  "load_source_try failing_lib (Some [flat, unpriced, basement]) (PropertyMatchEngine CONFIG)
     = (\<lparr>config = CONFIG, data = [flat_row, basement_row], corpus_embeddings = None\<rparr>,
        Some EncodeError)
   \<and> load_source failing_lib (Some [flat, unpriced, basement]) (PropertyMatchEngine CONFIG)
     = Inr \<lparr>config = CONFIG, data = [flat_row, basement_row], corpus_embeddings = None\<rparr>
   \<and> run_search sample_sort sample_lib
        \<lparr>config = CONFIG, data = [flat_row, basement_row], corpus_embeddings = None\<rparr> USER_PREFS
     = Inr NoColumns
   \<and> clean sample_lib [unpriced] = Inr []
   \<and> load_source_try sample_lib (Some [unpriced]) (PropertyMatchEngine CONFIG)
     = (\<lparr>config = CONFIG, data = [], corpus_embeddings = Some []\<rparr>, None)
   \<and> run_search sample_sort sample_lib
        \<lparr>config = CONFIG, data = [], corpus_embeddings = Some []\<rparr> USER_PREFS
     = Inr NoColumns
   \<and> load_source_try sample_lib None (PropertyMatchEngine CONFIG)
     = (PropertyMatchEngine CONFIG, Some ReadError)
   \<and> load_source sample_lib None (PropertyMatchEngine CONFIG) = Inr (PropertyMatchEngine CONFIG)"
proof -
  have t: "load_source_try failing_lib (Some [flat, unpriced, basement]) (PropertyMatchEngine CONFIG)
     = (\<lparr>config = CONFIG, data = [flat_row, basement_row], corpus_embeddings = None\<rparr>,
        Some EncodeError)"
    by (simp add: load_source_try_def clean_defs sample_defs)
  have c: "clean sample_lib [unpriced] = Inr []"
    by (simp add: clean_defs sample_defs)
  have u: "load_source_try sample_lib (Some [unpriced]) (PropertyMatchEngine CONFIG)
     = (\<lparr>config = CONFIG, data = [], corpus_embeddings = Some []\<rparr>, None)"
    by (simp add: load_source_try_def clean_defs sample_defs)
  have n: "load_source_try sample_lib None (PropertyMatchEngine CONFIG)
     = (PropertyMatchEngine CONFIG, Some ReadError)"
    by (simp add: load_source_try_def)
  from load_source_never_raises [OF t, of sample_sort sample_lib USER_PREFS]
    load_source_never_raises [OF u, of sample_sort sample_lib USER_PREFS]
    load_source_never_raises [OF n, of sample_sort sample_lib USER_PREFS] t c u n
  show ?thesis by (simp add: PropertyMatchEngine_def)
qed

text \<open>
  The claim as the specification words it asks for a failure and for an empty corpus
  after it. An unreadable source and a source with no valid row both end in a normal
  return. A source whose only row has no readable price and infinitely many bedrooms
  has no valid row either, and leaves that row in the engine: the cast raises before the
  row is dropped. A provider that fails after the rows were cleaned leaves the rows in
  the engine, without embeddings.
\<close>

theorem load_source_returns_on_failure:
  "load_source sample_lib None (PropertyMatchEngine CONFIG) = Inr (PropertyMatchEngine CONFIG)
   \<and> load_source sample_lib (Some [unpriced]) (PropertyMatchEngine CONFIG)
       = Inr \<lparr>config = CONFIG, data = [], corpus_embeddings = Some []\<rparr>
   \<and> load_source sample_lib (Some [palace]) (PropertyMatchEngine CONFIG)
       = Inr \<lparr>config = CONFIG, data = [palace_row], corpus_embeddings = None\<rparr>
   \<and> load_source failing_lib (Some [flat, basement]) (PropertyMatchEngine CONFIG)
       = Inr \<lparr>config = CONFIG, data = [flat_row, basement_row], corpus_embeddings = None\<rparr>"
  by (simp add: load_source_def load_source_try_def clean_defs sample_defs)

text \<open>
  Claim C9, as the code has it. After a build that ended without an exception, from
  whatever state the engine was in, the engine holds as many embeddings as rows,
  embedding \<open>i\<close> is the provider's vector for the description of row \<open>i\<close>, and a search
  leaves the engine as it found it.
\<close>

theorem build_invariant:
  assumes "load_source_try l src eng = (eng', None)"
  shows "\<exists>vs. corpus_embeddings eng' = Some vs
           \<and> length vs = length (data eng')
           \<and> (\<forall>i<length (data eng'). embed l (Description (data eng' ! i)) = Some (vs ! i))
           \<and> snd (run_search_method srt l2 p eng') = eng'"
proof -
  from assms obtain df rows vs where src: "src = Some df"
    and rows: "clean l df = Inr rows"
    and enc: "encode l (descriptions l df) = Some vs"
    and eng': "eng' = eng\<lparr>data := rows, corpus_embeddings := Some vs\<rparr>"
    by (auto simp add: load_source_try_def Let_def split: option.splits sum.splits)
  from encode_Some [OF enc] rows
  have rel: "list_all2 (\<lambda>r v. embed l (Description r) = Some v) rows vs"
    by (simp add: descriptions_def list_all2_map1)
  then have len: "length vs = length rows"
    by (simp add: list_all2_lengthD)
  have "\<forall>i<length rows. embed l (Description (rows ! i)) = Some (vs ! i)"
    using rel by (simp add: list_all2_conv_all_nth)
  with len eng' show ?thesis
    by (simp add: run_search_method_def)
qed

theorem build_invariant_witness:
  "load_source_try sample_lib (Some [flat, unpriced, basement]) (PropertyMatchEngine CONFIG)
     = (built_engine, None)
   \<and> (\<exists>vs. corpus_embeddings built_engine = Some vs
           \<and> length vs = length (data built_engine)
           \<and> snd (run_search_method sample_sort sample_lib USER_PREFS built_engine) = built_engine)"
proof -
  have t: "load_source_try sample_lib (Some [flat, unpriced, basement]) (PropertyMatchEngine CONFIG)
     = (built_engine, None)"
    by (simp add: load_source_try_def clean_defs sample_defs built_engine_def)
  from build_invariant [OF t, of sample_sort sample_lib USER_PREFS] t
  show ?thesis by blast
qed

text \<open>
  The claim as the specification words it has every later operation keep the invariant.
  A second \<open>load_source\<close> on the built engine, with the provider down, leaves the one new
  row beside the two old embeddings, and the next search raises.
\<close>

theorem failed_rebuild_breaks_invariant:
  "load_source sample_lib (Some [flat, unpriced, basement]) (PropertyMatchEngine CONFIG)
     = Inr built_engine
   \<and> load_source failing_lib (Some [flat]) built_engine
     = Inr \<lparr>config = CONFIG, data = [flat_row], corpus_embeddings = Some [[17, 1], [13, 1]]\<rparr>
   \<and> run_search sample_sort sample_lib
       \<lparr>config = CONFIG, data = [flat_row], corpus_embeddings = Some [[17, 1], [13, 1]]\<rparr>
       USER_PREFS
     = Inl ValueError"
  by (simp add: load_source_def load_source_try_def clean_defs sample_defs built_engine_def
      run_search_def)

text \<open>
  Claim C10. \<open>load_source\<close> reads the first 1000 rows of the source and cleans those:
  two sources that agree on their first 1000 rows build the same engine, the engine
  holds at most 1000 rows, and they are the rows that the cleaning of the first 1000
  leaves (all of the first 1000, half cleaned, when the cast of the bedrooms raises).
\<close>

theorem load_source_head_1000:
  assumes "take 1000 df = take 1000 df'"
  shows "load_source l (Some df) eng = load_source l (Some df') eng
         \<and> length (data (fst (load_source_try l (Some df) eng))) \<le> 1000
         \<and> (\<forall>rows. clean_rows l (take 1000 df) = Inr rows \<longrightarrow>
              data (fst (load_source_try l (Some df) eng)) = rows)
         \<and> (\<forall>e. clean_rows l (take 1000 df) = Inl e \<longrightarrow>
              data (fst (load_source_try l (Some df) eng))
                = map (half_clean_row l) (take 1000 df))"
proof (intro conjI allI impI)
  have c: "clean l df = clean l df'" using assms by (simp add: clean_def)
  then have d: "descriptions l df = descriptions l df'" by (simp add: descriptions_def)
  have "load_source_try l (Some df) eng = load_source_try l (Some df') eng"
    unfolding load_source_try_def option.case c d assms by (rule refl)
  then show "load_source l (Some df) eng = load_source l (Some df') eng"
    by (simp add: load_source_def)
  show r: "data (fst (load_source_try l (Some df) eng)) = rows"
    if "clean_rows l (take 1000 df) = Inr rows" for rows
    using that by (simp add: load_source_try_def clean_def Let_def split: option.splits)
  show h: "data (fst (load_source_try l (Some df) eng)) = map (half_clean_row l) (take 1000 df)"
    if "clean_rows l (take 1000 df) = Inl e" for e
    using that by (simp add: load_source_try_def clean_def)
  show "length (data (fst (load_source_try l (Some df) eng))) \<le> 1000"
  proof (cases "clean_rows l (take 1000 df)")
    case (Inl e)
    then show ?thesis using h [OF Inl] by simp
  next
    case (Inr rows)
    from length_clean_rows [OF Inr] have "length rows \<le> 1000" by simp
    then show ?thesis using r [OF Inr] by simp
  qed
qed

text \<open>
  A source of 1001 rows whose first row has no readable price: the 1001st row is not
  read, whatever it is, and the engine holds 999 rows.
\<close>

theorem load_source_head_1000_witness:
  "take 1000 (unpriced # replicate 999 flat @ [basement])
     = take 1000 (unpriced # replicate 999 flat @ [palace])
   \<and> length (unpriced # replicate 999 flat @ [basement]) = 1001
   \<and> load_source sample_lib (Some (unpriced # replicate 999 flat @ [basement]))
        (PropertyMatchEngine CONFIG)
     = load_source sample_lib (Some (unpriced # replicate 999 flat @ [palace]))
        (PropertyMatchEngine CONFIG)
   \<and> data (fst (load_source_try sample_lib (Some (unpriced # replicate 999 flat @ [basement]))
        (PropertyMatchEngine CONFIG))) = replicate 999 flat_row
   \<and> clean_rows sample_lib (take 1000 [palace]) = Inl IntCastingNaNError
   \<and> data (fst (load_source_try sample_lib (Some [palace]) (PropertyMatchEngine CONFIG)))
       = [palace_row]"
proof -
  have t: "take 1000 (unpriced # replicate 999 flat @ [basement])
     = take 1000 (unpriced # replicate 999 flat @ [palace])"
    by simp
  have f: "clean_row sample_lib flat = Inr (Some flat_row)"
    by (simp add: clean_defs sample_defs)
  have u: "clean_row sample_lib unpriced = Inr None"
    by (simp add: clean_defs sample_defs)
  have r: "clean_rows sample_lib (take 1000 (unpriced # replicate 999 flat @ [basement]))
          = Inr (replicate 999 flat_row)"
    by (simp add: clean_rows_replicate [OF f] u)
  have p: "clean_rows sample_lib (take 1000 [palace]) = Inl IntCastingNaNError"
    by (simp add: clean_defs sample_defs)
  have h: "map (half_clean_row sample_lib) (take 1000 [palace]) = [palace_row]"
    by (simp add: clean_defs sample_defs)
  from load_source_head_1000 [OF t, of sample_lib "PropertyMatchEngine CONFIG"]
    load_source_head_1000 [OF refl, of sample_lib "[palace]" "PropertyMatchEngine CONFIG"]
    t r p h
  show ?thesis by simp
qed

subsection \<open>The similarity score\<close>




end
